theory Spec2Isabelle
  imports Complex_Main
begin

section \<open>JavaScript numbers\<close>

text \<open>
  The plots compute with JavaScript numbers. A finite number is modelled by the real it
  denotes (arithmetic on finite numbers is exact: rounding and overflow of IEEE doubles are
  outside the model); \<open>NaN\<close> and the two infinities are values of their own, with the
  IEEE rules for arithmetic and comparison (every comparison with \<open>NaN\<close> is false).
\<close>

datatype jsnum = Num real | NaN | PosInf | NegInf

fun isFinite :: "jsnum \<Rightarrow> bool" where
  "isFinite (Num a) = True"
| "isFinite _ = False"

fun js_neg :: "jsnum \<Rightarrow> jsnum" where
  "js_neg (Num a) = Num (- a)"
| "js_neg NaN = NaN"
| "js_neg PosInf = NegInf"
| "js_neg NegInf = PosInf"

fun js_add :: "jsnum \<Rightarrow> jsnum \<Rightarrow> jsnum" where
  "js_add (Num a) (Num b) = Num (a + b)"
| "js_add NaN _ = NaN"
| "js_add _ NaN = NaN"
| "js_add PosInf NegInf = NaN"
| "js_add NegInf PosInf = NaN"
| "js_add PosInf _ = PosInf"
| "js_add _ PosInf = PosInf"
| "js_add NegInf _ = NegInf"
| "js_add _ NegInf = NegInf"

definition js_sub :: "jsnum \<Rightarrow> jsnum \<Rightarrow> jsnum" where
  "js_sub a b = js_add a (js_neg b)"

text \<open>\<open>Math.abs\<close>.\<close>

fun js_abs :: "jsnum \<Rightarrow> jsnum" where
  "js_abs (Num a) = Num \<bar>a\<bar>"
| "js_abs NaN = NaN"
| "js_abs _ = PosInf"

text \<open>Division by the literal 2.\<close>

fun js_half :: "jsnum \<Rightarrow> jsnum" where
  "js_half (Num a) = Num (a / 2)"
| "js_half x = x"

text \<open>\<open>Math.floor\<close>.\<close>

fun js_floor :: "jsnum \<Rightarrow> jsnum" where
  "js_floor (Num a) = Num (of_int \<lfloor>a\<rfloor>)"
| "js_floor x = x"

fun js_lt :: "jsnum \<Rightarrow> jsnum \<Rightarrow> bool" where
  "js_lt (Num a) (Num b) = (a < b)"
| "js_lt NaN _ = False"
| "js_lt _ NaN = False"
| "js_lt NegInf NegInf = False"
| "js_lt NegInf _ = True"
| "js_lt PosInf _ = False"
| "js_lt (Num a) PosInf = True"
| "js_lt (Num a) NegInf = False"

text \<open>Strict equality \<open>===\<close> on numbers: \<open>NaN\<close> equals nothing.\<close>

definition js_eq :: "jsnum \<Rightarrow> jsnum \<Rightarrow> bool" where
  "js_eq a b = (a = b \<and> a \<noteq> NaN)"

definition js_le :: "jsnum \<Rightarrow> jsnum \<Rightarrow> bool" where
  "js_le a b = (js_lt a b \<or> js_eq a b)"

definition js_gt :: "jsnum \<Rightarrow> jsnum \<Rightarrow> bool" where
  "js_gt a b = js_lt b a"

definition js_ge :: "jsnum \<Rightarrow> jsnum \<Rightarrow> bool" where
  "js_ge a b = js_le b a"


section \<open>Attribute projection of the bar plot\<close>

text \<open>
  A dataset is its data and its key. A projector maps \<open>(datum, index, dataset)\<close> to a
  number. The object \<open>attrToProjector\<close> is read and written at the four geometric
  attributes only; every other attribute (\<open>fill\<close>, ...) is carried along unchanged in
  \<open>attr_rest\<close>.
\<close>

datatype 'd dataset = Dataset (data: "'d list") (datasetName: string)

type_synonym 'd projector = "'d \<Rightarrow> nat \<Rightarrow> 'd dataset \<Rightarrow> jsnum"

record 'd attrToProjector =
  attr_x :: "'d projector"
  attr_y :: "'d projector"
  attr_width :: "'d projector"
  attr_height :: "'d projector"
  attr_rest :: "string \<Rightarrow> 'd projector option"

text \<open>
  The state of a \<open>Plots.Bar\<close> that the geometry reads. The scales and accessors are not
  part of the sources: \<open>xScaled\<close> and \<open>yScaled\<close> stand for
  \<open>Plot._scaledAccessor(this.x())\<close> and \<open>Plot._scaledAccessor(this.y())\<close>,
  \<open>scaledBaseline\<close> for \<open>primaryScale.scale(this._baselineValue)\<close>, and
  \<open>superAttrToProjector\<close> for the result of \<open>super._generateAttrToProjector()\<close>
  (it holds the \<open>width\<close> projector installed by the constructor).
  \<open>plotWidth\<close> and \<open>plotHeight\<close> are \<open>this.width()\<close> and \<open>this.height()\<close>.
  For the width solve the plot also holds its two scales, either a category scale (given by
  its \<open>rangeBand()\<close>) or any other scale (given by its \<open>scale\<close> function on
  numbers), the \<open>x\<close> and \<open>y\<close> accessors, whose result is the number obtained by
  \<open>valueOf()\<close> and \<open>+value\<close>, or \<open>None\<close> for \<open>null\<close> and \<open>undefined\<close>,
  and the datasets of the plot.
\<close>

datatype scale = Category real | Quantitative "real \<Rightarrow> real"

type_synonym 'd accessor = "'d \<Rightarrow> nat \<Rightarrow> 'd dataset \<Rightarrow> real option"

record 'd bar =
  isVertical :: bool
  projectorsReady :: bool
  scaledBaseline :: jsnum
  xScaled :: "'d projector"
  yScaled :: "'d projector"
  superAttrToProjector :: "'d attrToProjector"
  dataChanged :: bool
  animate :: bool
  plotWidth :: real
  plotHeight :: real
  xScale :: scale
  yScale :: scale
  xAccessor :: "'d accessor"
  yAccessor :: "'d accessor"
  datasets :: "'d dataset list"

text \<open>\<open>originalPositionFn\<close> of \<open>_generateAttrToProjector\<close>: the raw scaled value.\<close>

definition originalPositionFn :: "'d bar \<Rightarrow> 'd projector" where
  "originalPositionFn p = (if isVertical p then yScaled p else xScaled p)"

definition positionF :: "'d bar \<Rightarrow> 'd projector" where
  "positionF p = (if isVertical p then xScaled p else yScaled p)"

definition generateAttrToProjector :: "'d bar \<Rightarrow> 'd attrToProjector" where
  "generateAttrToProjector p =
    (let attrToProjector = superAttrToProjector p;
         widthF = attr_width attrToProjector;
         heightF = (\<lambda>d i ds. js_abs (js_sub (scaledBaseline p) (originalPositionFn p d i ds)));
         secondaryF = (\<lambda>d i ds. js_sub (positionF p d i ds) (js_half (widthF d i ds)));
         primaryF = (\<lambda>d i ds.
            let originalPos = originalPositionFn p d i ds
            in if js_gt originalPos (scaledBaseline p) then scaledBaseline p else originalPos)
     in attrToProjector
          \<lparr> attr_x := (if isVertical p then secondaryF else primaryF),
            attr_y := (if isVertical p then primaryF else secondaryF),
            attr_width := (if isVertical p then widthF else heightF),
            attr_height := (if isVertical p then heightF else widthF) \<rparr>)"

text \<open>
  The bar geometry of the specification, read off the projected attributes: the primary
  axis is y for a vertical plot and x for a horizontal one.
\<close>

definition primaryOffset :: "'d bar \<Rightarrow> 'd projector" where
  "primaryOffset p =
     (if isVertical p then attr_y (generateAttrToProjector p)
      else attr_x (generateAttrToProjector p))"

definition secondaryOffset :: "'d bar \<Rightarrow> 'd projector" where
  "secondaryOffset p =
     (if isVertical p then attr_x (generateAttrToProjector p)
      else attr_y (generateAttrToProjector p))"

definition barLength :: "'d bar \<Rightarrow> 'd projector" where
  "barLength p =
     (if isVertical p then attr_height (generateAttrToProjector p)
      else attr_width (generateAttrToProjector p))"

definition barThickness :: "'d bar \<Rightarrow> 'd projector" where
  "barThickness p =
     (if isVertical p then attr_width (generateAttrToProjector p)
      else attr_height (generateAttrToProjector p))"


section \<open>The bar renderer\<close>

text \<open>
  \<open>BarRenderer\<close> projects with \<open>(datum, index)\<close>. Its state: the alignment, whether
  the renderer is anchored (\<open>this.element != null\<close>) and the number of renders done so
  far; \<open>r_scaledBaseline\<close> stands for \<open>this.yScale.scale(this._baselineValue)\<close>,
  \<open>r_rangeType\<close> for the range type of the x scale (\<open>None\<close> when the scale has no
  \<open>rangeType\<close>), \<open>r_rangeBand\<close> for its \<open>rangeBand()\<close> and \<open>r_superAttrs\<close> for
  the projectors of \<open>XYRenderer\<close>.
\<close>

type_synonym 'd projector2 = "'d \<Rightarrow> nat \<Rightarrow> jsnum"

record 'd attrs2 =
  a_x :: "'d projector2"
  a_y :: "'d projector2"
  a_width :: "'d projector2"
  a_height :: "'d projector2"

record 'd barRenderer =
  r_barAlignment :: string
  r_baselineValue :: real
  r_anchored :: bool
  r_renders :: nat
  r_scaledBaseline :: jsnum
  r_rangeType :: "string option"
  r_rangeBand :: jsnum
  r_superAttrs :: "'d attrs2"

text \<open>The projectors that \<open>_paint\<close> hands to the selection.\<close>

definition paint_attrToProjector :: "'d barRenderer \<Rightarrow> 'd attrs2" where
  "paint_attrToProjector r =
    (let attrToProjector = r_superAttrs r;
         xF = a_x attrToProjector;
         widthF = a_width attrToProjector;
         rangeType = (case r_rangeType r of None \<Rightarrow> ''points'' | Some t \<Rightarrow> t);
         attrToProjector1 =
           (if rangeType = ''points'' then
              (if r_barAlignment r = ''center''
                 then attrToProjector \<lparr> a_x := (\<lambda>d i. js_sub (xF d i) (js_half (widthF d i))) \<rparr>
               else if r_barAlignment r = ''right''
                 then attrToProjector \<lparr> a_x := (\<lambda>d i. js_sub (xF d i) (widthF d i)) \<rparr>
               else attrToProjector)
            else attrToProjector \<lparr> a_width := (\<lambda>d i. r_rangeBand r) \<rparr>);
         yFunction = a_y attrToProjector1
     in attrToProjector1
          \<lparr> a_y := (\<lambda>d i. let originalY = yFunction d i
                          in if js_gt originalY (r_scaledBaseline r)
                             then r_scaledBaseline r else originalY),
            a_height := (\<lambda>d i. js_abs (js_sub (r_scaledBaseline r) (yFunction d i))) \<rparr>)"

text \<open>
  \<open>BarRenderer.barAlignment\<close> throws before it changes anything when the lower-cased
  alignment is not one of the three names; otherwise it stores the lower-cased alignment
  and renders when anchored. A call is modelled by the exception it threw, if any, and
  the state it leaves. \<open>toLowerCase\<close> acts on the 26 letters.
\<close>

datatype jsError = Error string | TypeError

definition toLowerCase :: "string \<Rightarrow> string" where
  "toLowerCase s =
     map (\<lambda>c. case map_of (zip ''ABCDEFGHIJKLMNOPQRSTUVWXYZ'' ''abcdefghijklmnopqrstuvwxyz'') c of
                 None \<Rightarrow> c | Some l \<Rightarrow> l) s"

definition barAlignment :: "string \<Rightarrow> 'd barRenderer \<Rightarrow> jsError option \<times> 'd barRenderer" where
  "barAlignment alignment r =
    (let alignmentLC = toLowerCase alignment
     in if alignmentLC \<noteq> ''left'' \<and> alignmentLC \<noteq> ''center'' \<and> alignmentLC \<noteq> ''right''
        then (Some (Error ''unsupported bar alignment''), r)
        else (None, r \<lparr> r_barAlignment := alignmentLC,
                        r_renders := (if r_anchored r then Suc (r_renders r) else r_renders r) \<rparr>))"


section \<open>Construction of a bar plot\<close>

text \<open>
  The constructor of \<open>Plots.Bar\<close>; its argument is \<open>None\<close> when the caller passes no
  orientation. It either throws or yields the orientation flag and the baseline value of
  the new plot.
\<close>

definition ORIENTATION_VERTICAL :: string where
  "ORIENTATION_VERTICAL = ''vertical''"

definition ORIENTATION_HORIZONTAL :: string where
  "ORIENTATION_HORIZONTAL = ''horizontal''"

record barConstructed =
  c_isVertical :: bool
  c_baselineValue :: real

definition Bar_constructor :: "string option \<Rightarrow> jsError + barConstructed" where
  "Bar_constructor orientationArg =
    (let orientation = (case orientationArg of None \<Rightarrow> ORIENTATION_VERTICAL | Some s \<Rightarrow> s)
     in if orientation \<noteq> ORIENTATION_VERTICAL \<and> orientation \<noteq> ORIENTATION_HORIZONTAL
        then Inl (Error (orientation @ '' is not a valid orientation for Plots.Bar''))
        else Inr \<lparr> c_isVertical = (orientation = ORIENTATION_VERTICAL), c_baselineValue = 0 \<rparr>)"


section \<open>The drag box layer\<close>

text \<open>
  The setter \<open>detectionRadius(r)\<close> of \<open>DragBoxLayer\<close> (the overload with a number):
  the exception it threw, if any, and the state it leaves.
\<close>

record dragBoxLayer =
  detectionRadiusField :: jsnum
  resizable :: bool
  layerRenders :: nat

definition detectionRadius :: "jsnum \<Rightarrow> dragBoxLayer \<Rightarrow> jsError option \<times> dragBoxLayer" where
  "detectionRadius r l =
    (if js_lt r (Num 0) then (Some (Error ''detection radius cannot be negative.''), l)
     else (None, l \<lparr> detectionRadiusField := r, layerRenders := Suc (layerRenders l) \<rparr>))"


section \<open>Draw steps\<close>

text \<open>
  A draw step pairs the projectors with the animator registered under a key
  (\<open>Plots.Animator.RESET\<close> or \<open>Plots.Animator.MAIN\<close>).
\<close>

datatype animatorKey = RESET | MAIN

record 'd drawStep =
  step_attrToProjector :: "'d attrToProjector"
  step_animator :: animatorKey

definition generateDrawSteps :: "'d bar \<Rightarrow> 'd drawStep list" where
  "generateDrawSteps p =
    (let drawSteps0 = [];
         drawSteps1 =
          (if dataChanged p \<and> animate p then
             (let resetAttrToProjector = generateAttrToProjector p;
                  reset1 = (if isVertical p
                            then resetAttrToProjector \<lparr> attr_y := (\<lambda>d i ds. scaledBaseline p) \<rparr>
                            else resetAttrToProjector \<lparr> attr_x := (\<lambda>d i ds. scaledBaseline p) \<rparr>);
                  reset2 = (if isVertical p
                            then reset1 \<lparr> attr_height := (\<lambda>d i ds. Num 0) \<rparr>
                            else reset1 \<lparr> attr_width := (\<lambda>d i ds. Num 0) \<rparr>)
              in drawSteps0 @ [\<lparr> step_attrToProjector = reset2, step_animator = RESET \<rparr>])
           else drawSteps0)
     in drawSteps1 @
        [\<lparr> step_attrToProjector = generateAttrToProjector p, step_animator = MAIN \<rparr>])"


section \<open>The data to draw\<close>

text \<open>
  Modelled from the spec: \<open>Utils.Methods.isValidNumber\<close> is not among the sources. The
  specification excludes a datum whose projected value "is not a finite number".
\<close>

definition isValidNumber :: "jsnum \<Rightarrow> bool" where
  "isValidNumber n = isFinite n"

text \<open>\<open>Array.prototype.filter\<close> and \<open>map\<close>, whose callbacks also see the index.\<close>

definition filter_indexed :: "('a \<Rightarrow> nat \<Rightarrow> bool) \<Rightarrow> 'a list \<Rightarrow> 'a list" where
  "filter_indexed f xs = map fst (filter (\<lambda>(x, i). f x i) (zip xs [0..<length xs]))"

definition map_indexed :: "('a \<Rightarrow> nat \<Rightarrow> 'b) \<Rightarrow> 'a list \<Rightarrow> 'b list" where
  "map_indexed f xs = map (\<lambda>(x, i). f x i) (zip xs [0..<length xs])"

text \<open>The map from dataset to drawable data, as the list of its entries.\<close>

definition getDataToDraw :: "'d bar \<Rightarrow> ('d dataset \<times> 'd list) list" where
  "getDataToDraw p =
    (let attrToProjector = generateAttrToProjector p
     in map (\<lambda>dataset.
          (dataset,
           filter_indexed (\<lambda>d i.
               isValidNumber (attr_x attrToProjector d i dataset) \<and>
               isValidNumber (attr_y attrToProjector d i dataset) \<and>
               isValidNumber (attr_width attrToProjector d i dataset) \<and>
               isValidNumber (attr_height attrToProjector d i dataset))
             (data dataset)))
        (datasets p))"


section \<open>The bar pixel width\<close>

definition BAR_WIDTH_RATIO :: real where
  "BAR_WIDTH_RATIO = 0.95"

definition SINGLE_BAR_DIMENSION_RATIO :: real where
  "SINGLE_BAR_DIMENSION_RATIO = 0.4"

text \<open>
  Modelled from the spec: \<open>Utils.Methods.min\<close> is not among the sources. It gives the
  least value of the accessor over the array, and the default value for an empty array
  ("the minimum such gap (default to ... if fewer than two distinct values exist)").
\<close>

definition Utils_min :: "'a list \<Rightarrow> ('a \<Rightarrow> real) \<Rightarrow> real \<Rightarrow> real" where
  "Utils_min array accessor defaultValue =
     (case map accessor array of [] \<Rightarrow> defaultValue | v # vs \<Rightarrow> fold min vs v)"

text \<open>
  Modelled from the spec: \<open>Utils.Methods.max\<close> is not among the sources. It is the
  counterpart of \<open>Utils.Methods.min\<close> for the greatest value ("symmetric clamp at the
  maximum end").
\<close>

definition Utils_max :: "'a list \<Rightarrow> ('a \<Rightarrow> real) \<Rightarrow> real \<Rightarrow> real" where
  "Utils_max array accessor defaultValue =
     (case map accessor array of [] \<Rightarrow> defaultValue | v # vs \<Rightarrow> fold max vs v)"

text \<open>\<open>d3.pairs\<close>: the adjacent pairs of an array.\<close>

fun d3_pairs :: "'a list \<Rightarrow> ('a \<times> 'a) list" where
  "d3_pairs (a # b # rest) = (a, b) # d3_pairs (b # rest)"
| "d3_pairs _ = []"

text \<open>
  The non-null accessor values of all datasets; \<open>d3.set(...).values()\<close> keeps one copy of
  each, and the numeric sort orders them ascending.
\<close>

definition barAccessorData :: "'d bar \<Rightarrow> real list" where
  "barAccessorData p =
    (let barAccessor = (if isVertical p then xAccessor p else yAccessor p)
     in concat (map (\<lambda>dataset.
          map the (filter (\<lambda>d. d \<noteq> None)
            (map_indexed (\<lambda>d i. barAccessor d i dataset) (data dataset))))
        (datasets p)))"

definition numberBarAccessorData :: "'d bar \<Rightarrow> real list" where
  "numberBarAccessorData p = sort (remdups (barAccessorData p))"

definition getBarPixelWidth :: "'d bar \<Rightarrow> real" where
  "getBarPixelWidth p =
    (if \<not> projectorsReady p then 0
     else case (if isVertical p then xScale p else yScale p) of
       Category rangeBand \<Rightarrow> rangeBand
     | Quantitative barScale \<Rightarrow>
        (let barAccessorDataPairs = d3_pairs (numberBarAccessorData p);
             barWidthDimension = (if isVertical p then plotWidth p else plotHeight p);
             barPixelWidth0 =
               Utils_min barAccessorDataPairs (\<lambda>pair. \<bar>barScale (snd pair) - barScale (fst pair)\<bar>)
                 (barWidthDimension * SINGLE_BAR_DIMENSION_RATIO);
             scaledData = map barScale (numberBarAccessorData p);
             minScaledDatum = Utils_min scaledData (\<lambda>v. v) 0;
             barPixelWidth1 =
               (if minScaledDatum > 0 then min barPixelWidth0 (minScaledDatum * 2)
                else barPixelWidth0);
             maxScaledDatum = Utils_max scaledData (\<lambda>v. v) 0;
             barPixelWidth2 =
               (if maxScaledDatum < barWidthDimension
                then (let margin = barWidthDimension - maxScaledDatum
                      in min barPixelWidth1 (margin * 2))
                else barPixelWidth1)
         in barPixelWidth2 * BAR_WIDTH_RATIO))"


section \<open>Entities\<close>

record point =
  pt_x :: jsnum
  pt_y :: jsnum

text \<open>
  The selection of an entity is the drawn \<open>rect\<close> element, given by its four
  attributes.
\<close>

record rect =
  rect_x :: jsnum
  rect_y :: jsnum
  rect_width :: jsnum
  rect_height :: jsnum

record 'd entity =
  datum :: 'd
  index :: nat
  dataset :: "'d dataset"
  position :: point
  selection :: rect

definition pixelPoint :: "'d bar \<Rightarrow> 'd \<Rightarrow> nat \<Rightarrow> 'd dataset \<Rightarrow> point" where
  "pixelPoint p d i ds =
    (let attrToProjector = generateAttrToProjector p;
         rectX = attr_x attrToProjector d i ds;
         rectY = attr_y attrToProjector d i ds;
         rectWidth = attr_width attrToProjector d i ds;
         rectHeight = attr_height attrToProjector d i ds;
         x = (if isVertical p then js_add rectX (js_half rectWidth) else js_add rectX rectWidth);
         y = (if isVertical p then rectY else js_add rectY (js_half rectHeight))
     in \<lparr> pt_x = x, pt_y = y \<rparr>)"

text \<open>
  Modelled from the spec: \<open>Plot.entities\<close> is not among the sources. The entity of a
  rendered datum carries its pixel position, from \<open>_pixelPoint\<close>, and its drawn mark,
  whose attributes are the ones projected in the main draw step.
\<close>

definition plotEntity :: "'d bar \<Rightarrow> 'd \<Rightarrow> nat \<Rightarrow> 'd dataset \<Rightarrow> 'd entity" where
  "plotEntity p d i ds =
    (let attrToProjector = generateAttrToProjector p
     in \<lparr> datum = d, index = i, dataset = ds, position = pixelPoint p d i ds,
          selection = \<lparr> rect_x = attr_x attrToProjector d i ds,
                        rect_y = attr_y attrToProjector d i ds,
                        rect_width = attr_width attrToProjector d i ds,
                        rect_height = attr_height attrToProjector d i ds \<rparr> \<rparr>)"

text \<open>
  \<open>Bar.entities\<close>: the body of its loop, and the method itself on the entities that
  \<open>super.entities(datasets)\<close> returned.
\<close>

definition adjustEntity :: "'d bar \<Rightarrow> 'd entity \<Rightarrow> 'd entity" where
  "adjustEntity p entity =
    (let bar = selection entity;
         pos0 = position entity;
         pos1 =
          (if isVertical p \<and> js_ge (js_floor (rect_y bar)) (js_floor (scaledBaseline p))
           then pos0 \<lparr> pt_y := js_add (pt_y pos0) (rect_height bar) \<rparr>
           else if \<not> isVertical p \<and> js_lt (js_floor (rect_x bar)) (js_floor (scaledBaseline p))
           then pos0 \<lparr> pt_x := js_sub (pt_x pos0) (rect_width bar) \<rparr>
           else pos0);
         pos2 =
          (if isVertical p
           then pos1 \<lparr> pt_x := js_add (rect_x bar) (js_half (rect_width bar)) \<rparr>
           else pos1 \<lparr> pt_y := js_add (rect_y bar) (js_half (rect_height bar)) \<rparr>)
     in entity \<lparr> position := pos2 \<rparr>)"

definition entities :: "'d bar \<Rightarrow> 'd entity list \<Rightarrow> 'd entity list" where
  "entities p superEntities =
    (if \<not> projectorsReady p then [] else map (adjustEntity p) superEntities)"


section \<open>Spatial queries\<close>

text \<open>A query coordinate is a number or a range.\<close>

datatype valOrRange = Val jsnum | Range jsnum jsnum

fun range_min :: "valOrRange \<Rightarrow> jsnum" where
  "range_min (Val v) = v"
| "range_min (Range lo hi) = lo"

fun range_max :: "valOrRange \<Rightarrow> jsnum" where
  "range_max (Val v) = v"
| "range_max (Range lo hi) = hi"

text \<open>
  Modelled from the spec: the default tolerance of \<open>Utils.Methods.intersectsBBox\<close> is not
  among the sources. "A fixed half-pixel tolerance is applied to all inside tests."
\<close>

definition DEFAULT_TOLERANCE :: jsnum where
  "DEFAULT_TOLERANCE = Num (1 / 2)"

text \<open>
  Modelled from the spec: \<open>Utils.Methods.intersectsBBox\<close> is not among the sources. A
  bounding box contains a point, or overlaps a rectangle, with inclusive bounds, up to the
  tolerance; the tolerance is the default one when the caller passes none.
\<close>

definition intersectsBBox :: "valOrRange \<Rightarrow> valOrRange \<Rightarrow> rect \<Rightarrow> jsnum option \<Rightarrow> bool" where
  "intersectsBBox xValOrRange yValOrRange bbox toleranceArg =
    (let tolerance = (case toleranceArg of None \<Rightarrow> DEFAULT_TOLERANCE | Some t \<Rightarrow> t)
     in js_ge (js_add (rect_x bbox) (rect_width bbox)) (js_sub (range_min xValOrRange) tolerance) \<and>
        js_le (rect_x bbox) (js_add (range_max xValOrRange) tolerance) \<and>
        js_ge (js_add (rect_y bbox) (rect_height bbox)) (js_sub (range_min yValOrRange) tolerance) \<and>
        js_le (rect_y bbox) (js_add (range_max yValOrRange) tolerance))"

text \<open>
  Modelled from the spec: \<open>Utils.DOM.getBBox\<close> is not among the sources. The bounding
  box of a drawn mark is the rectangle of its attributes.
\<close>

definition getBBox :: "rect \<Rightarrow> rect" where
  "getBBox sel = sel"

definition isVisibleOnPlot :: "'d bar \<Rightarrow> 'd \<Rightarrow> point \<Rightarrow> rect \<Rightarrow> bool" where
  "isVisibleOnPlot p d pixelPt sel =
    (let xRange = Range (Num 0) (Num (plotWidth p));
         yRange = Range (Num 0) (Num (plotHeight p));
         barBBox = getBBox sel
     in intersectsBBox xRange yRange barBBox None)"

text \<open>
  \<open>entityNearest\<close>. The tolerance is the local constant of the method. The two tests
  and the two distances are the expressions of the loop body; \<open>nearestStep\<close> is one
  round of the loop on the variables \<open>closest\<close>, \<open>minPrimaryDist\<close> and
  \<open>minSecondaryDist\<close>.
\<close>

definition tolerance :: jsnum where
  "tolerance = Num 0.5"

definition insideBar :: "point \<Rightarrow> 'd entity \<Rightarrow> bool" where
  "insideBar queryPoint entity =
     intersectsBBox (Val (pt_x queryPoint)) (Val (pt_y queryPoint))
       (getBBox (selection entity)) (Some tolerance)"

definition withinSecondarySpan :: "'d bar \<Rightarrow> point \<Rightarrow> 'd entity \<Rightarrow> bool" where
  "withinSecondarySpan p queryPoint entity =
    (let queryPtSecondary = (if isVertical p then pt_y queryPoint else pt_x queryPoint);
         barBBox = getBBox (selection entity);
         barMinSecondary = (if isVertical p then rect_y barBBox else rect_x barBBox);
         barMaxSecondary =
           js_add barMinSecondary (if isVertical p then rect_height barBBox else rect_width barBBox)
     in js_ge queryPtSecondary (js_sub barMinSecondary tolerance) \<and>
        js_le queryPtSecondary (js_add barMaxSecondary tolerance))"

definition nearestDists :: "'d bar \<Rightarrow> point \<Rightarrow> 'd entity \<Rightarrow> jsnum \<times> jsnum" where
  "nearestDists p queryPoint entity =
    (let queryPtPrimary = (if isVertical p then pt_x queryPoint else pt_y queryPoint);
         queryPtSecondary = (if isVertical p then pt_y queryPoint else pt_x queryPoint);
         plotPt = position entity
     in if \<not> insideBar queryPoint entity then
          (let plotPtPrimary = (if isVertical p then pt_x plotPt else pt_y plotPt);
               primaryDist = js_abs (js_sub queryPtPrimary plotPtPrimary);
               secondaryDist =
                 (if withinSecondarySpan p queryPoint entity then Num 0
                  else (let plotPtSecondary = (if isVertical p then pt_y plotPt else pt_x plotPt)
                        in js_abs (js_sub queryPtSecondary plotPtSecondary)))
           in (primaryDist, secondaryDist))
        else (Num 0, Num 0))"

text \<open>The comparison that makes an entity the new closest one.\<close>

definition closerThan :: "jsnum \<times> jsnum \<Rightarrow> jsnum \<times> jsnum \<Rightarrow> bool" where
  "closerThan dists mins =
     (js_lt (fst dists) (fst mins) \<or> js_eq (fst dists) (fst mins) \<and> js_lt (snd dists) (snd mins))"

definition nearestStep ::
  "'d bar \<Rightarrow> point \<Rightarrow> 'd entity \<Rightarrow> 'd entity option \<times> jsnum \<times> jsnum
     \<Rightarrow> 'd entity option \<times> jsnum \<times> jsnum" where
  "nearestStep p queryPoint entity st =
    (if \<not> isVisibleOnPlot p (datum entity) (position entity) (selection entity) then st
     else (let dists = nearestDists p queryPoint entity
           in if closerThan dists (snd st) then (Some entity, dists) else st))"

definition entityNearest :: "'d bar \<Rightarrow> point \<Rightarrow> 'd entity list \<Rightarrow> 'd entity option" where
  "entityNearest p queryPoint superEntities =
     fst (fold (nearestStep p queryPoint) (entities p superEntities) (None, PosInf, PosInf))"

definition entitiesIntersecting ::
  "'d bar \<Rightarrow> valOrRange \<Rightarrow> valOrRange \<Rightarrow> 'd entity list \<Rightarrow> 'd entity list" where
  "entitiesIntersecting p xValOrRange yValOrRange superEntities =
     filter (\<lambda>entity. intersectsBBox xValOrRange yValOrRange (getBBox (selection entity)) None)
       (entities p superEntities)"

definition entitiesAt :: "'d bar \<Rightarrow> point \<Rightarrow> 'd entity list \<Rightarrow> 'd entity list" where
  "entitiesAt p pt superEntities = entitiesIntersecting p (Val (pt_x pt)) (Val (pt_y pt)) superEntities"

text \<open>\<open>entitiesIn\<close> has two overloads: with bounds, and with an x range and a y range.\<close>

record bounds =
  topLeft :: point
  bottomRight :: point

definition entitiesIn_bounds :: "'d bar \<Rightarrow> bounds \<Rightarrow> 'd entity list \<Rightarrow> 'd entity list" where
  "entitiesIn_bounds p bnds superEntities =
    (let dataXRange = Range (pt_x (topLeft bnds)) (pt_x (bottomRight bnds));
         dataYRange = Range (pt_y (topLeft bnds)) (pt_y (bottomRight bnds))
     in entitiesIntersecting p dataXRange dataYRange superEntities)"

definition entitiesIn ::
  "'d bar \<Rightarrow> jsnum \<times> jsnum \<Rightarrow> jsnum \<times> jsnum \<Rightarrow> 'd entity list \<Rightarrow> 'd entity list" where
  "entitiesIn p xRange yRange superEntities =
     entitiesIntersecting p (Range (fst xRange) (snd xRange)) (Range (fst yRange) (snd yRange))
       superEntities"


section \<open>Stack offsets of the stacked area plot\<close>

text \<open>
  The state of a \<open>StackedArea\<close> that \<open>_updateStackOffsets\<close> reads and writes.
  \<open>sa_xKey\<close> and \<open>sa_yKey\<close> stand for the accessors of the \<open>x\<close> and \<open>y\<close>
  projectors followed by \<open>toString()\<close>: the result is \<open>None\<close> when the accessor
  returns \<open>null\<close> or \<open>undefined\<close>, on which \<open>toString()\<close> throws a
  \<open>TypeError\<close>. \<open>sa_value\<close> stands for the value that is stacked,
  \<open>key2DatasetDrawerKey\<close> gives the data of the dataset registered under a key,
  \<open>warnings\<close> collects the messages given to \<open>_Util.Methods.warn\<close>, and
  \<open>stackOffsets\<close> holds, for each dataset in order, its offset at every domain key.
\<close>

record 'd stackedArea =
  sa_isVertical :: bool
  sa_xKey :: "'d \<Rightarrow> string option"
  sa_yKey :: "'d \<Rightarrow> string option"
  sa_value :: "'d \<Rightarrow> real"
  datasetKeysInOrder :: "string list"
  key2DatasetDrawerKey :: "string \<Rightarrow> 'd list option"
  warnings :: "string list"
  stackOffsets :: "(string \<Rightarrow> real) list"

definition keyAccessor :: "'d stackedArea \<Rightarrow> 'd \<Rightarrow> string option" where
  "keyAccessor sa = (if sa_isVertical sa then sa_xKey sa else sa_yKey sa)"




text \<open>
  Modelled from the spec: the value accessor of the stack is not among the sources. The
  value of a dataset at a domain key is the value of its datum with that key, and zero for
  "any key not present in a given dataset".
\<close>

definition datasetValue :: "'d stackedArea \<Rightarrow> 'd list \<Rightarrow> string \<Rightarrow> real" where
  "datasetValue sa dsData domainKey =
     (case find (\<lambda>d. keyAccessor sa d = Some domainKey) dsData of
        None \<Rightarrow> 0 | Some d \<Rightarrow> sa_value sa d)"







section \<open>Notions for the properties\<close>

text \<open>
  The projector of the position along the primary axis (\<open>positionAttr\<close>) and the
  projector of the length (\<open>dimensionAttr\<close>) in a projector object.
\<close>

definition positionProjector :: "'d bar \<Rightarrow> 'd attrToProjector \<Rightarrow> 'd projector" where
  "positionProjector p a = (if isVertical p then attr_y a else attr_x a)"

definition dimensionProjector :: "'d bar \<Rightarrow> 'd attrToProjector \<Rightarrow> 'd projector" where
  "dimensionProjector p a = (if isVertical p then attr_height a else attr_width a)"

text \<open>
  The datum at index \<open>i\<close> of a dataset is drawable when its projected \<open>x\<close>,
  \<open>y\<close>, \<open>width\<close> and \<open>height\<close> are all finite numbers.
\<close>

definition drawable :: "'d bar \<Rightarrow> 'd dataset \<Rightarrow> nat \<Rightarrow> bool" where
  "drawable p ds i =
     (i < length (data ds) \<and>
      isFinite (attr_x (generateAttrToProjector p) (data ds ! i) i ds) \<and>
      isFinite (attr_y (generateAttrToProjector p) (data ds ! i) i ds) \<and>
      isFinite (attr_width (generateAttrToProjector p) (data ds ! i) i ds) \<and>
      isFinite (attr_height (generateAttrToProjector p) (data ds ! i) i ds))"

text \<open>
  The width solve in the words of the specification, for a continuous scale, the distinct
  domain values \<open>vs\<close> in ascending order and the available extent: the adjacent pixel
  gaps; their minimum as the candidate, or \<open>extent * 0.4\<close> for fewer than two values;
  the cap at twice the smallest scaled value when that is positive; the cap at twice the
  margin between the largest scaled value and the extent when that value is below the
  extent; and the shrink ratio.
\<close>

definition spec_pixelGaps :: "(real \<Rightarrow> real) \<Rightarrow> real list \<Rightarrow> real list" where
  "spec_pixelGaps scale vs = map (\<lambda>i. \<bar>scale (vs ! Suc i) - scale (vs ! i)\<bar>) [0..<length vs - 1]"

definition spec_solveWidth :: "(real \<Rightarrow> real) \<Rightarrow> real list \<Rightarrow> real \<Rightarrow> real \<Rightarrow> real" where
  "spec_solveWidth scale vs extent shrinkRatio =
    (let candidate = (if length vs < 2 then extent * 0.4 else Min (set (spec_pixelGaps scale vs)));
         clampedLow = (if vs \<noteq> [] \<and> 0 < Min (scale ` set vs)
                       then min candidate (2 * Min (scale ` set vs)) else candidate);
         clampedHigh = (if vs \<noteq> [] \<and> Max (scale ` set vs) < extent
                        then min clampedLow (2 * (extent - Max (scale ` set vs))) else clampedLow)
     in clampedHigh * shrinkRatio)"

text \<open>Points, rectangles and entities all of whose numbers are finite.\<close>

definition finitePoint :: "point \<Rightarrow> bool" where
  "finitePoint pt = (isFinite (pt_x pt) \<and> isFinite (pt_y pt))"

definition finiteRect :: "rect \<Rightarrow> bool" where
  "finiteRect r =
     (isFinite (rect_x r) \<and> isFinite (rect_y r) \<and> isFinite (rect_width r) \<and> isFinite (rect_height r))"

definition finiteEntity :: "'d entity \<Rightarrow> bool" where
  "finiteEntity e = (finitePoint (position e) \<and> finiteRect (selection e))"

text \<open>The visibility test of \<open>entityNearest\<close> on an entity.\<close>

definition visible :: "'d bar \<Rightarrow> 'd entity \<Rightarrow> bool" where
  "visible p e = isVisibleOnPlot p (datum e) (position e) (selection e)"

text \<open>A pair of distances that are both finite.\<close>

definition finitePair :: "jsnum \<times> jsnum \<Rightarrow> bool" where
  "finitePair d = (isFinite (fst d) \<and> isFinite (snd d))"

text \<open>
  One round of the loop of \<open>entityNearest\<close> on a visible entity, for any distance
  function.
\<close>

definition nearestPick ::
  "('e \<Rightarrow> jsnum \<times> jsnum) \<Rightarrow> 'e \<Rightarrow> 'e option \<times> jsnum \<times> jsnum \<Rightarrow> 'e option \<times> jsnum \<times> jsnum" where
  "nearestPick D e st = (if closerThan (D e) (snd st) then (Some e, D e) else st)"

text \<open>
  The coordinates of a point along the two directions of \<open>entityNearest\<close>: its primary
  direction is x for a vertical plot and y for a horizontal one.
\<close>

definition primaryCoord :: "'d bar \<Rightarrow> point \<Rightarrow> jsnum" where
  "primaryCoord p pt = (if isVertical p then pt_x pt else pt_y pt)"

definition secondaryCoord :: "'d bar \<Rightarrow> point \<Rightarrow> jsnum" where
  "secondaryCoord p pt = (if isVertical p then pt_y pt else pt_x pt)"

text \<open>
  The distances in the words of the claim: the primary distance is zero when the query
  point falls within the span of the mark along the primary axis, the secondary distance
  is zero when it falls within the span along the secondary axis.
\<close>

definition withinPrimarySpan :: "'d bar \<Rightarrow> point \<Rightarrow> 'd entity \<Rightarrow> bool" where
  "withinPrimarySpan p queryPoint entity =
    (let queryPtPrimary = primaryCoord p queryPoint;
         barBBox = getBBox (selection entity);
         barMinPrimary = (if isVertical p then rect_x barBBox else rect_y barBBox);
         barMaxPrimary =
           js_add barMinPrimary (if isVertical p then rect_width barBBox else rect_height barBBox)
     in js_ge queryPtPrimary (js_sub barMinPrimary tolerance) \<and>
        js_le queryPtPrimary (js_add barMaxPrimary tolerance))"

definition spec_nearestDists :: "'d bar \<Rightarrow> point \<Rightarrow> 'd entity \<Rightarrow> jsnum \<times> jsnum" where
  "spec_nearestDists p queryPoint entity =
     (if withinPrimarySpan p queryPoint entity then Num 0
      else js_abs (js_sub (primaryCoord p queryPoint) (primaryCoord p (position entity))),
      if withinSecondarySpan p queryPoint entity then Num 0
      else js_abs (js_sub (secondaryCoord p queryPoint) (secondaryCoord p (position entity))))"

text \<open>
  The inside tests on finite numbers: a bounding box meets the rectangle of an x range and
  a y range widened by the tolerance, and a coordinate lies within a span widened by the
  tolerance.
\<close>

definition spec_withinTolerance :: "real \<Rightarrow> real \<times> real \<Rightarrow> real \<times> real \<Rightarrow> rect \<Rightarrow> bool" where
  "spec_withinTolerance tol xRange yRange bbox =
    (case (rect_x bbox, rect_y bbox, rect_width bbox, rect_height bbox) of
       (Num bx, Num by, Num bw, Num bh) \<Rightarrow>
          fst xRange - tol \<le> bx + bw \<and> bx \<le> snd xRange + tol \<and>
          fst yRange - tol \<le> by + bh \<and> by \<le> snd yRange + tol
     | _ \<Rightarrow> False)"

definition spec_withinSpan :: "real \<Rightarrow> real \<Rightarrow> jsnum \<Rightarrow> jsnum \<Rightarrow> bool" where
  "spec_withinSpan tol v spanMin spanLength =
    (case (spanMin, spanLength) of
       (Num lo, Num len) \<Rightarrow> lo - tol \<le> v \<and> v \<le> lo + len + tol
     | _ \<Rightarrow> False)"

text \<open>
  The coordinates of a point along the length of the bars (y for a vertical plot) and
  along their thickness.
\<close>

definition alongLength :: "'d bar \<Rightarrow> point \<Rightarrow> jsnum" where
  "alongLength p pt = (if isVertical p then pt_y pt else pt_x pt)"

definition alongThickness :: "'d bar \<Rightarrow> point \<Rightarrow> jsnum" where
  "alongThickness p pt = (if isVertical p then pt_x pt else pt_y pt)"

text \<open>
  The test of the loop in \<open>_updateStackOffsets\<close> for the dataset registered under a
  key: some domain key is not among the keys of the dataset.
\<close>

definition missesDomainKey :: "'d stackedArea \<Rightarrow> string list \<Rightarrow> string \<Rightarrow> bool" where
  "missesDomainKey sa domainKeys datasetKey =
     (case key2DatasetDrawerKey sa datasetKey of
        None \<Rightarrow> False
      | Some dsData \<Rightarrow>
          list_ex (\<lambda>domainKey. Some domainKey \<notin> set (map (keyAccessor sa) dsData)) domainKeys)"


section \<open>Concrete plots\<close>

text \<open>
  A vertical plot of the three data \<open>(1, 5)\<close>, \<open>(2, -3)\<close>, \<open>(3, 0)\<close> with baseline 0,
  the x scale mapping \<open>[1, 3]\<close> to \<open>[0, 100]\<close> and the y scale mapping \<open>[-3, 5]\<close> to
  \<open>[100, 0]\<close>, and a renderer with the same scales.
\<close>

definition exampleXScale :: "real \<Rightarrow> real" where
  "exampleXScale v = 50 * (v - 1)"

definition exampleYScale :: "real \<Rightarrow> real" where
  "exampleYScale v = 12.5 * (5 - v)"

definition exampleData :: "(real \<times> real) dataset" where
  "exampleData = Dataset [(1, 5), (2, -3), (3, 0)] ''example''"

definition exampleBar :: "(real \<times> real) bar" where
  "exampleBar =
    \<lparr> isVertical = True, projectorsReady = True, scaledBaseline = Num 62.5,
      xScaled = (\<lambda>d i ds. Num (exampleXScale (fst d))),
      yScaled = (\<lambda>d i ds. Num (exampleYScale (snd d))),
      superAttrToProjector =
        \<lparr> attr_x = (\<lambda>d i ds. Num 0), attr_y = (\<lambda>d i ds. Num 0),
          attr_width = (\<lambda>d i ds. Num 47.5), attr_height = (\<lambda>d i ds. Num 0),
          attr_rest = (\<lambda>name. None) \<rparr>,
      dataChanged = True, animate = True, plotWidth = 100, plotHeight = 100,
      xScale = Quantitative exampleXScale,
      yScale = Quantitative exampleYScale,
      xAccessor = (\<lambda>d i ds. Some (fst d)), yAccessor = (\<lambda>d i ds. Some (snd d)),
      datasets = [exampleData] \<rparr>"

definition exampleRenderer :: "(real \<times> real) barRenderer" where
  "exampleRenderer =
    \<lparr> r_barAlignment = ''left'', r_baselineValue = 0, r_anchored = True, r_renders = 0,
      r_scaledBaseline = Num 62.5, r_rangeType = None, r_rangeBand = Num 0,
      r_superAttrs =
        \<lparr> a_x = (\<lambda>d i. Num (exampleXScale (fst d))), a_y = (\<lambda>d i. Num (exampleYScale (snd d))),
          a_width = (\<lambda>d i. Num 10), a_height = (\<lambda>d i. Num 0) \<rparr> \<rparr>"

text \<open>
  The same plot with a value scale that is undefined below zero and infinite at zero.
\<close>

definition exampleLogBar :: "(real \<times> real) bar" where
  "exampleLogBar =
     exampleBar \<lparr> yScaled := (\<lambda>d i ds. if snd d < 0 then NaN else if snd d = 0 then PosInf
                                        else Num (exampleYScale (snd d))) \<rparr>"

text \<open>The same plot with an x scale that sends every value to pixel 50.\<close>

definition exampleDegenerateBar :: "(real \<times> real) bar" where
  "exampleDegenerateBar = exampleBar \<lparr> xScale := Quantitative (\<lambda>v. 50) \<rparr>"

text \<open>A drag box layer with the default detection radius.\<close>

definition exampleLayer :: dragBoxLayer where
  "exampleLayer = \<lparr> detectionRadiusField = Num 3, resizable = False, layerRenders = 0 \<rparr>"

text \<open>
  A vertical plot of 100 by 100 pixels with the baseline at pixel 100 and two bars of
  width 10 whose spans along x overlap: one centred at x = 15 with its value end at
  y = 50, one centred at x = 17 with its value end at y = 10. The query point (13, 0) lies
  within both spans along x and above both bars.
\<close>

definition exampleNearData :: "(real \<times> real) dataset" where
  "exampleNearData = Dataset [(15, 50), (17, 10)] ''near''"

definition exampleNearBar :: "(real \<times> real) bar" where
  "exampleNearBar =
    \<lparr> isVertical = True, projectorsReady = True, scaledBaseline = Num 100,
      xScaled = (\<lambda>d i ds. Num (fst d)), yScaled = (\<lambda>d i ds. Num (snd d)),
      superAttrToProjector =
        \<lparr> attr_x = (\<lambda>d i ds. Num 0), attr_y = (\<lambda>d i ds. Num 0),
          attr_width = (\<lambda>d i ds. Num 10), attr_height = (\<lambda>d i ds. Num 0),
          attr_rest = (\<lambda>name. None) \<rparr>,
      dataChanged = False, animate = False, plotWidth = 100, plotHeight = 100,
      xScale = Quantitative (\<lambda>v. v), yScale = Quantitative (\<lambda>v. v),
      xAccessor = (\<lambda>d i ds. Some (fst d)), yAccessor = (\<lambda>d i ds. Some (snd d)),
      datasets = [exampleNearData] \<rparr>"

definition exampleNearEntities :: "(real \<times> real) entity list" where
  "exampleNearEntities =
     [plotEntity exampleNearBar (15, 50) 0 exampleNearData,
      plotEntity exampleNearBar (17, 10) 1 exampleNearData]"

definition exampleEntityA :: "(real \<times> real) entity" where
  "exampleEntityA =
    \<lparr> datum = (15, 50), index = 0, dataset = exampleNearData,
      position = \<lparr> pt_x = Num 15, pt_y = Num 50 \<rparr>,
      selection = \<lparr> rect_x = Num 10, rect_y = Num 50, rect_width = Num 10, rect_height = Num 50 \<rparr> \<rparr>"

definition exampleEntityB :: "(real \<times> real) entity" where
  "exampleEntityB =
    \<lparr> datum = (17, 10), index = 1, dataset = exampleNearData,
      position = \<lparr> pt_x = Num 17, pt_y = Num 10 \<rparr>,
      selection = \<lparr> rect_x = Num 12, rect_y = Num 10, rect_width = Num 10, rect_height = Num 90 \<rparr> \<rparr>"

definition exampleQuery :: point where
  "exampleQuery = \<lparr> pt_x = Num 13, pt_y = Num 0 \<rparr>"




section \<open>Numbers: the finite case\<close>

lemma js_gt_Num [simp]: "js_gt (Num a) (Num b) = (b < a)"
  by (simp add: js_gt_def)

lemma js_sub_Num [simp]: "js_sub (Num a) (Num b) = Num (a - b)"
  by (simp add: js_sub_def)

lemma js_le_Num [simp]: "js_le (Num a) (Num b) = (a \<le> b)"
  by (auto simp: js_le_def js_eq_def)

lemma js_ge_Num [simp]: "js_ge (Num a) (Num b) = (b \<le> a)"
  by (simp add: js_ge_def)

lemma js_eq_Num [simp]: "js_eq (Num a) (Num b) = (a = b)"
  by (simp add: js_eq_def)

lemma primaryOffset_eq:
  "primaryOffset p d i ds =
     (if js_gt (originalPositionFn p d i ds) (scaledBaseline p)
      then scaledBaseline p else originalPositionFn p d i ds)"
  by (simp add: primaryOffset_def generateAttrToProjector_def Let_def)

lemma barLength_eq:
  "barLength p d i ds = js_abs (js_sub (scaledBaseline p) (originalPositionFn p d i ds))"
  by (simp add: barLength_def generateAttrToProjector_def Let_def)

lemma paint_y_eq:
  "a_y (paint_attrToProjector r) d i =
     (if js_gt (a_y (r_superAttrs r) d i) (r_scaledBaseline r)
      then r_scaledBaseline r else a_y (r_superAttrs r) d i)"
  by (simp add: paint_attrToProjector_def Let_def)

lemma paint_height_eq:
  "a_height (paint_attrToProjector r) d i =
     js_abs (js_sub (r_scaledBaseline r) (a_y (r_superAttrs r) d i))"
  by (simp add: paint_attrToProjector_def Let_def)


section \<open>The projected mark spans from the baseline to the raw value\<close>

text \<open>
  Claim C1. For a datum whose raw scaled value \<open>rawPrimary\<close> and the scaled baseline are
  finite, the mark projected by \<open>Plots.Bar\<close>, in either orientation, has
  \<open>length = |scaledBaseline - rawPrimary|\<close> and
  \<open>primaryOffset = (rawPrimary > scaledBaseline ? scaledBaseline : rawPrimary)\<close>; hence
  the smaller of \<open>primaryOffset\<close> and \<open>primaryOffset + length\<close> is the smaller of
  baseline and raw value, the larger is the larger, and the length is not negative. The
  \<open>y\<close> and \<open>height\<close> projectors of \<open>BarRenderer._paint\<close> satisfy the same equations.
\<close>

theorem baseline_invariant:
  "(scaledBaseline p = Num b \<and> originalPositionFn p d i ds = Num raw \<longrightarrow>
      (\<exists>off len. primaryOffset p d i ds = Num off \<and> barLength p d i ds = Num len
         \<and> len = \<bar>b - raw\<bar> \<and> off = (if raw > b then b else raw)
         \<and> min off (off + len) = min b raw \<and> max off (off + len) = max b raw \<and> 0 \<le> len))
   \<and> (r_scaledBaseline r = Num bR \<and> a_y (r_superAttrs r) dR iR = Num rawR \<longrightarrow>
      (\<exists>off len. a_y (paint_attrToProjector r) dR iR = Num off
         \<and> a_height (paint_attrToProjector r) dR iR = Num len
         \<and> len = \<bar>bR - rawR\<bar> \<and> off = (if rawR > bR then bR else rawR)
         \<and> min off (off + len) = min bR rawR \<and> max off (off + len) = max bR rawR \<and> 0 \<le> len))"
  by (auto simp: primaryOffset_eq barLength_eq paint_y_eq paint_height_eq)

theorem baseline_invariant_witness:
  "primaryOffset exampleBar (2, -3) 1 exampleData = Num 62.5
   \<and> barLength exampleBar (2, -3) 1 exampleData = Num 37.5
   \<and> a_y (paint_attrToProjector exampleRenderer) (1, 5) 0 = Num 0
   \<and> a_height (paint_attrToProjector exampleRenderer) (1, 5) 0 = Num 62.5"
proof -
  have h1: "scaledBaseline exampleBar = Num 62.5"
    by (simp add: exampleBar_def)
  have h2: "originalPositionFn exampleBar (2, -3) 1 exampleData = Num 100"
    by (simp add: exampleBar_def originalPositionFn_def exampleYScale_def)
  have h3: "r_scaledBaseline exampleRenderer = Num 62.5"
    by (simp add: exampleRenderer_def)
  have h4: "a_y (r_superAttrs exampleRenderer) (1, 5) 0 = Num 0"
    by (simp add: exampleRenderer_def exampleYScale_def)
  show ?thesis
    using baseline_invariant [where p = exampleBar and b = "62.5" and d = "(2, -3)" and i = 1
      and ds = exampleData and raw = 100 and r = exampleRenderer and bR = "62.5"
      and dR = "(1, 5)" and iR = 0 and rawR = 0] h1 h2 h3 h4
    by auto
qed

section \<open>Draw steps\<close>

text \<open>
  Claim C6. When the data changed and animation is enabled, \<open>_generateDrawSteps\<close>
  yields exactly two steps, the reset step and then the main step; otherwise exactly one,
  the main step. In the reset step the position projector of the primary axis returns the
  scaled baseline and the projector of the length returns 0 for every mark. The main step
  carries the projectors of a direct pass of \<open>_generateAttrToProjector\<close>.
\<close>

theorem draw_steps:
  "(dataChanged p \<and> animate p \<longrightarrow>
      (\<exists>reset. generateDrawSteps p =
           [\<lparr> step_attrToProjector = reset, step_animator = RESET \<rparr>,
            \<lparr> step_attrToProjector = generateAttrToProjector p, step_animator = MAIN \<rparr>]
         \<and> (\<forall>d i ds. positionProjector p reset d i ds = scaledBaseline p
                     \<and> dimensionProjector p reset d i ds = Num 0)))
   \<and> (\<not> (dataChanged p \<and> animate p) \<longrightarrow>
        generateDrawSteps p =
           [\<lparr> step_attrToProjector = generateAttrToProjector p, step_animator = MAIN \<rparr>])"
  by (simp add: generateDrawSteps_def Let_def positionProjector_def dimensionProjector_def)

theorem draw_steps_witness:
  "length (generateDrawSteps exampleBar) = 2
   \<and> map step_animator (generateDrawSteps exampleBar) = [RESET, MAIN]
   \<and> attr_y (step_attrToProjector (generateDrawSteps exampleBar ! 0)) (1, 5) 0 exampleData = Num 62.5
   \<and> attr_height (step_attrToProjector (generateDrawSteps exampleBar ! 0)) (1, 5) 0 exampleData = Num 0
   \<and> length (generateDrawSteps (exampleBar \<lparr> animate := False \<rparr>)) = 1
   \<and> step_attrToProjector (generateDrawSteps (exampleBar \<lparr> animate := False \<rparr>) ! 0)
       = generateAttrToProjector (exampleBar \<lparr> animate := False \<rparr>)"
proof -
  have h: "dataChanged exampleBar \<and> animate exampleBar" "isVertical exampleBar"
    "scaledBaseline exampleBar = Num 62.5"
    by (simp_all add: exampleBar_def)
  have g: "\<not> (dataChanged (exampleBar \<lparr> animate := False \<rparr>) \<and> animate (exampleBar \<lparr> animate := False \<rparr>))"
    by simp
  show ?thesis
    using draw_steps [of exampleBar] draw_steps [of "exampleBar \<lparr> animate := False \<rparr>"] h g
    by (auto simp: positionProjector_def dimensionProjector_def)
qed

section \<open>The data to draw\<close>

lemma filter_indexed_nths:
  "filter_indexed f xs = nths xs {i. i < length xs \<and> f (xs ! i) i}"
proof -
  have "filter (\<lambda>(x, i). f x i) (zip xs [0..<length xs])
        = filter (\<lambda>q. snd q \<in> {i. i < length xs \<and> f (xs ! i) i}) (zip xs [0..<length xs])"
    by (rule filter_cong) (auto simp: set_zip)
  then show ?thesis
    by (simp add: filter_indexed_def nths_def)
qed

text \<open>
  Claim C7. For every dataset of the plot, the data to draw are exactly the data whose
  projected \<open>x\<close>, \<open>y\<close>, \<open>width\<close> and \<open>height\<close> are all finite numbers, in
  their order in the dataset: a datum with a projected attribute that is not finite is left
  out, and nothing else is.
\<close>

theorem data_to_draw:
  "getDataToDraw p = map (\<lambda>ds. (ds, nths (data ds) {i. drawable p ds i})) (datasets p)"
  by (simp add: getDataToDraw_def Let_def filter_indexed_nths isValidNumber_def drawable_def)

lemma exampleLogBar_attrs:
  "attr_x (generateAttrToProjector exampleLogBar) d i ds = Num (exampleXScale (fst d) - 47.5 / 2)"
  "attr_width (generateAttrToProjector exampleLogBar) d i ds = Num 47.5"
  "attr_y (generateAttrToProjector exampleLogBar) d i ds =
     (if snd d < 0 then NaN else if snd d = 0 then Num 62.5
      else if exampleYScale (snd d) > 62.5 then Num 62.5 else Num (exampleYScale (snd d)))"
  "attr_height (generateAttrToProjector exampleLogBar) d i ds =
     (if snd d < 0 then NaN else if snd d = 0 then PosInf
      else Num \<bar>62.5 - exampleYScale (snd d)\<bar>)"
  by (simp_all add: exampleLogBar_def exampleBar_def generateAttrToProjector_def
      originalPositionFn_def positionF_def Let_def js_gt_def js_sub_def)

theorem data_to_draw_witness:
  "getDataToDraw exampleLogBar = [(exampleData, [(1, 5)])]"
proof -
  have "drawable exampleLogBar exampleData i \<longleftrightarrow> i = 0" for i
    by (cases "i < 3")
      (auto simp: drawable_def exampleLogBar_attrs exampleData_def less_Suc_eq numeral_3_eq_3)
  then have "{i. drawable exampleLogBar exampleData i} = {0}"
    by auto
  moreover have "datasets exampleLogBar = [exampleData]"
    by (simp add: exampleLogBar_def exampleBar_def)
  ultimately show ?thesis
    using data_to_draw [of exampleLogBar]
    by (simp add: exampleData_def nths_Cons)
qed

section \<open>The bar pixel width\<close>

lemma Utils_min_eq:
  "Utils_min xs f dflt = (if xs = [] then dflt else Min (f ` set xs))"
proof (cases xs)
  case Nil
  then show ?thesis by (simp add: Utils_min_def)
next
  case (Cons a as)
  have "fold min (map f as) (f a) = Min (set (f a # map f as))"
    by (rule Min.set_eq_fold [symmetric])
  with Cons show ?thesis by (simp add: Utils_min_def)
qed

lemma Utils_max_eq:
  "Utils_max xs f dflt = (if xs = [] then dflt else Max (f ` set xs))"
proof (cases xs)
  case Nil
  then show ?thesis by (simp add: Utils_max_def)
next
  case (Cons a as)
  have "fold max (map f as) (f a) = Max (set (f a # map f as))"
    by (rule Max.set_eq_fold [symmetric])
  with Cons show ?thesis by (simp add: Utils_max_def)
qed

lemma d3_pairs_eq: "d3_pairs xs = map (\<lambda>i. (xs ! i, xs ! Suc i)) [0..<length xs - 1]"
proof (induction xs rule: d3_pairs.induct)
  case (1 a b rest)
  have "[0..<Suc (length rest)] = 0 # map Suc [0..<length rest]"
    by (simp add: upt_conv_Cons map_Suc_upt del: upt_Suc)
  with 1 show ?case
    by (simp del: upt_Suc add: comp_def)
qed simp_all

lemma d3_pairs_Nil: "d3_pairs xs = [] \<longleftrightarrow> length xs < 2"
  by (induction xs rule: d3_pairs.induct) simp_all

lemma numberBarAccessorData_eq:
  "numberBarAccessorData p = sorted_list_of_set (set (barAccessorData p))"
  by (simp add: numberBarAccessorData_def sorted_list_of_set_sort_remdups)

lemma getBarPixelWidth_solved:
  assumes "projectorsReady p"
    and "(if isVertical p then xScale p else yScale p) = Quantitative scale"
  shows "getBarPixelWidth p =
           spec_solveWidth scale (numberBarAccessorData p)
             (if isVertical p then plotWidth p else plotHeight p) BAR_WIDTH_RATIO"
proof -
  let ?vs = "numberBarAccessorData p"
  have gaps: "(\<lambda>pair. \<bar>scale (snd pair) - scale (fst pair)\<bar>) ` set (d3_pairs ?vs)
                = set (spec_pixelGaps scale ?vs)"
    by (simp add: d3_pairs_eq spec_pixelGaps_def image_image del: upt_Suc)
  have empty: "?vs = [] \<Longrightarrow> set (d3_pairs ?vs) = {}" and short: "(d3_pairs ?vs = []) = (length ?vs < 2)"
    by (simp_all add: d3_pairs_Nil)
  show ?thesis
    unfolding getBarPixelWidth_def spec_solveWidth_def Let_def Utils_min_eq Utils_max_eq
      SINGLE_BAR_DIMENSION_RATIO_def
    using assms gaps short
    by (cases "?vs = []") (simp_all add: mult.commute)
qed

text \<open>
  Claim C3. For a scale that is not a category scale, \<open>_getBarPixelWidth\<close> is the width
  that the specification describes, computed on the distinct values of the bar accessor
  over all datasets in ascending order: the minimum adjacent pixel gap (\<open>extent * 0.4\<close>
  for fewer than two distinct values), capped at \<open>2 * m\<close> when the smallest scaled value
  \<open>m\<close> is positive, capped at \<open>2 * (extent - M)\<close> when the largest scaled value \<open>M\<close>
  is below the extent, and multiplied by the shrink ratio \<open>0.95 < 1\<close>.
\<close>

theorem bar_pixel_width_continuous:
  assumes "projectorsReady p"
    and "(if isVertical p then xScale p else yScale p) = Quantitative scale"
  shows "getBarPixelWidth p =
           spec_solveWidth scale (sorted_list_of_set (set (barAccessorData p)))
             (if isVertical p then plotWidth p else plotHeight p) BAR_WIDTH_RATIO
         \<and> 0 < BAR_WIDTH_RATIO \<and> BAR_WIDTH_RATIO < 1"
  using getBarPixelWidth_solved [OF assms]
  by (simp add: numberBarAccessorData_eq BAR_WIDTH_RATIO_def)

lemma exampleBar_width_facts:
  "projectorsReady exampleBar"
  "(if isVertical exampleBar then xScale exampleBar else yScale exampleBar)
     = Quantitative exampleXScale"
  "(if isVertical exampleBar then plotWidth exampleBar else plotHeight exampleBar) = 100"
  "barAccessorData exampleBar = [1, 2, 3]"
  by (simp_all add: exampleBar_def barAccessorData_def exampleData_def map_indexed_def)

theorem bar_pixel_width_continuous_witness:
  "getBarPixelWidth exampleBar = 47.5"
proof -
  have vs: "sorted_list_of_set (set [1, 2, 3 :: real]) = [1, 2, 3]"
    by (simp add: sorted_list_of_set_sort_remdups)
  have gaps: "spec_pixelGaps exampleXScale [1, 2, 3] = [50, 50]"
    by (simp add: spec_pixelGaps_def upt_conv_Cons exampleXScale_def)
  show ?thesis
    using bar_pixel_width_continuous [OF exampleBar_width_facts(1,2)]
    by (simp add: exampleBar_width_facts vs gaps spec_solveWidth_def BAR_WIDTH_RATIO_def
        exampleXScale_def)
qed

lemma spec_candidate_sign:
  fixes scale :: "real \<Rightarrow> real" and vs :: "real list" and extent :: real
  assumes "0 < extent"
  defines "c \<equiv> (if length vs < 2 then extent * 0.4 else Min (set (spec_pixelGaps scale vs)))"
  shows "0 \<le> c" and "0 < c \<longleftrightarrow> (\<forall>i. Suc i < length vs \<longrightarrow> scale (vs ! Suc i) \<noteq> scale (vs ! i))"
proof -
  show "0 \<le> c"
  proof (cases "length vs < 2")
    case True
    with assms show ?thesis by simp
  next
    case False
    then have "set (spec_pixelGaps scale vs) \<noteq> {}"
      by (simp add: spec_pixelGaps_def)
    then show ?thesis
      using False by (auto simp: c_def Min_ge_iff spec_pixelGaps_def)
  qed
  show "0 < c \<longleftrightarrow> (\<forall>i. Suc i < length vs \<longrightarrow> scale (vs ! Suc i) \<noteq> scale (vs ! i))"
  proof (cases "length vs < 2")
    case True
    with assms show ?thesis by auto
  next
    case False
    then have ne: "set (spec_pixelGaps scale vs) \<noteq> {}"
      by (simp add: spec_pixelGaps_def)
    have "0 < Min (set (spec_pixelGaps scale vs)) \<longleftrightarrow> (\<forall>g \<in> set (spec_pixelGaps scale vs). 0 < g)"
      using ne by (simp add: Min_gr_iff)
    also have "\<dots> \<longleftrightarrow> (\<forall>i. Suc i < length vs \<longrightarrow> scale (vs ! Suc i) \<noteq> scale (vs ! i))"
      by (auto simp: spec_pixelGaps_def less_diff_conv)
    finally show ?thesis
      using False by (simp add: c_def)
  qed
qed

lemma clamp_sign:
  fixes c m M extent :: real
  shows "0 \<le> c \<Longrightarrow>
      0 \<le> (if B \<and> M < extent then min (if A \<and> 0 < m then min c (2 * m) else c) (2 * (extent - M))
           else (if A \<and> 0 < m then min c (2 * m) else c)) * (95 / 100)"
    and "0 < (if B \<and> M < extent then min (if A \<and> 0 < m then min c (2 * m) else c) (2 * (extent - M))
              else (if A \<and> 0 < m then min c (2 * m) else c)) * (95 / 100) \<longleftrightarrow> 0 < c"
  by (auto simp: zero_less_mult_iff zero_le_mult_iff)

lemma spec_solveWidth_sign:
  fixes scale :: "real \<Rightarrow> real" and vs :: "real list" and extent :: real
  assumes "0 < extent"
  shows "0 \<le> spec_solveWidth scale vs extent (95 / 100)"
    and "0 < spec_solveWidth scale vs extent (95 / 100)
          \<longleftrightarrow> (\<forall>i. Suc i < length vs \<longrightarrow> scale (vs ! Suc i) \<noteq> scale (vs ! i))"
proof -
  show "0 \<le> spec_solveWidth scale vs extent (95 / 100)"
    unfolding spec_solveWidth_def Let_def
    by (rule clamp_sign(1)) (rule spec_candidate_sign(1) [OF assms])
  show "0 < spec_solveWidth scale vs extent (95 / 100)
          \<longleftrightarrow> (\<forall>i. Suc i < length vs \<longrightarrow> scale (vs ! Suc i) \<noteq> scale (vs ! i))"
    unfolding spec_solveWidth_def Let_def
    by (rule trans [OF clamp_sign(2) spec_candidate_sign(2) [OF assms]])
qed

text \<open>
  Claim C4, as amended. The width solve applies no floor. For a scale that is not a
  category scale and a positive available extent, the solved width is never negative; it
  is positive exactly when no two adjacent distinct domain values scale to the same pixel,
  so it is positive for fewer than two distinct values (a single point, all points equal)
  and zero when two adjacent distinct values scale to the same pixel.
\<close>

theorem bar_pixel_width_not_floored:
  assumes "projectorsReady p"
    and "(if isVertical p then xScale p else yScale p) = Quantitative scale"
    and "0 < (if isVertical p then plotWidth p else plotHeight p)"
  shows "0 \<le> getBarPixelWidth p
    \<and> (0 < getBarPixelWidth p \<longleftrightarrow>
         (\<forall>i. Suc i < length (numberBarAccessorData p) \<longrightarrow>
              scale (numberBarAccessorData p ! Suc i) \<noteq> scale (numberBarAccessorData p ! i)))
    \<and> (length (numberBarAccessorData p) < 2 \<longrightarrow> 0 < getBarPixelWidth p)"
  using spec_solveWidth_sign [OF assms(3), of scale "numberBarAccessorData p"]
    getBarPixelWidth_solved [OF assms(1,2)]
  by (simp add: BAR_WIDTH_RATIO_def)

lemma exampleDegenerateBar_facts:
  "projectorsReady exampleDegenerateBar"
  "(if isVertical exampleDegenerateBar then xScale exampleDegenerateBar
    else yScale exampleDegenerateBar) = Quantitative (\<lambda>v. 50)"
  "(if isVertical exampleDegenerateBar then plotWidth exampleDegenerateBar
    else plotHeight exampleDegenerateBar) = 100"
  "numberBarAccessorData exampleDegenerateBar = [1, 2, 3]"
  by (simp_all add: exampleDegenerateBar_def exampleBar_def numberBarAccessorData_def
      barAccessorData_def exampleData_def map_indexed_def)

text \<open>
  Claim C4 as stated fails: three distinct domain values that scale to the same pixel give
  the width zero.
\<close>

theorem bar_pixel_width_zero:
  "\<not> 0 < getBarPixelWidth exampleDegenerateBar"
  by (simp add: getBarPixelWidth_def exampleDegenerateBar_facts Utils_min_def Utils_max_def
      Let_def)

theorem bar_pixel_width_not_floored_witness:
  "0 < getBarPixelWidth exampleBar \<and> getBarPixelWidth exampleDegenerateBar = 0"
proof -
  have "numberBarAccessorData exampleBar = [1, 2, 3]"
    by (simp add: numberBarAccessorData_def exampleBar_width_facts)
  moreover have "\<forall>i. Suc i < length [1, 2, 3 :: real] \<longrightarrow>
      exampleXScale ([1, 2, 3] ! Suc i) \<noteq> exampleXScale ([1, 2, 3] ! i)"
    by (auto simp: exampleXScale_def less_Suc_eq numeral_3_eq_3)
  ultimately have "0 < getBarPixelWidth exampleBar"
    using bar_pixel_width_not_floored [OF exampleBar_width_facts(1,2)]
    by (simp add: exampleBar_width_facts)
  moreover have "getBarPixelWidth exampleDegenerateBar = 0"
    using bar_pixel_width_not_floored [OF exampleDegenerateBar_facts(1,2)]
    by (simp add: exampleDegenerateBar_facts) (metis lessI nth_Cons_0 nth_Cons_Suc order_le_less one_less_numeral_iff semiring_norm(76) length_Cons list.size(3) numeral_3_eq_3)
  ultimately show ?thesis by simp
qed

section \<open>Configuration errors\<close>

lemma toLowerCase_examples:
  "toLowerCase ''top'' = ''top''" "toLowerCase ''Center'' = ''center''" "toLowerCase ''LEFT'' = ''left''"
  by (simp_all add: toLowerCase_def)

text \<open>
  Claim C9. Constructing a bar plot with an orientation other than \<open>vertical\<close> and
  \<open>horizontal\<close> throws; setting a negative detection radius on a drag box layer throws
  and leaves the layer as it was; setting a bar alignment that is not \<open>left\<close>,
  \<open>center\<close> or \<open>right\<close> (the alignment is compared after lower-casing) throws and
  leaves the renderer as it was, so nothing has been rendered in between. The three calls
  do not throw in the other cases.
\<close>

theorem configuration_errors:
  "(orientation \<noteq> ''vertical'' \<and> orientation \<noteq> ''horizontal'' \<longrightarrow>
      Bar_constructor (Some orientation)
        = Inl (Error (orientation @ '' is not a valid orientation for Plots.Bar'')))
   \<and> (js_lt radius (Num 0) \<longrightarrow>
      detectionRadius radius layer = (Some (Error ''detection radius cannot be negative.''), layer))
   \<and> (toLowerCase alignment \<notin> {''left'', ''center'', ''right''} \<longrightarrow>
      barAlignment alignment r = (Some (Error ''unsupported bar alignment''), r))
   \<and> (Bar_constructor (Some ''vertical'') = Inr \<lparr> c_isVertical = True, c_baselineValue = 0 \<rparr>)
   \<and> (Bar_constructor (Some ''horizontal'') = Inr \<lparr> c_isVertical = False, c_baselineValue = 0 \<rparr>)
   \<and> (\<not> js_lt radius (Num 0) \<longrightarrow> fst (detectionRadius radius layer) = None)
   \<and> (toLowerCase alignment \<in> {''left'', ''center'', ''right''} \<longrightarrow>
        fst (barAlignment alignment r) = None)"
  by (simp add: Bar_constructor_def ORIENTATION_VERTICAL_def ORIENTATION_HORIZONTAL_def
      detectionRadius_def barAlignment_def Let_def)

theorem configuration_errors_witness:
  "Bar_constructor (Some ''diagonal'')
     = Inl (Error ''diagonal is not a valid orientation for Plots.Bar'')
   \<and> detectionRadius (Num (-1)) exampleLayer
     = (Some (Error ''detection radius cannot be negative.''), exampleLayer)
   \<and> barAlignment ''top'' exampleRenderer = (Some (Error ''unsupported bar alignment''), exampleRenderer)
   \<and> fst (detectionRadius (Num 5) exampleLayer) = None
   \<and> fst (barAlignment ''Center'' exampleRenderer) = None"
  using configuration_errors [of "''diagonal''" "Num (-1)" exampleLayer "''top''" exampleRenderer]
    configuration_errors [of "''diagonal''" "Num 5" exampleLayer "''Center''" exampleRenderer]
  by (simp add: toLowerCase_examples)


section \<open>Stack offsets with missing domain keys\<close>

lemma keyAccessor_warnings [simp]: "keyAccessor (sa \<lparr> warnings := w \<rparr>) = keyAccessor sa"
  by (simp add: keyAccessor_def fun_eq_iff)

lemma datasetValue_warnings [simp]: "datasetValue (sa \<lparr> warnings := w \<rparr>) = datasetValue sa"
  by (simp add: datasetValue_def fun_eq_iff split: option.splits)

lemma missesDomainKey_warnings [simp]:
  "missesDomainKey (sa \<lparr> warnings := w \<rparr>) = missesDomainKey sa"
  by (simp add: missesDomainKey_def fun_eq_iff split: option.splits)












lemma datasetValue_missing:
  "Some c \<notin> keyAccessor sa ` set dsData \<Longrightarrow> datasetValue sa dsData c = 0"
proof -
  assume "Some c \<notin> keyAccessor sa ` set dsData"
  then have "find (\<lambda>d. keyAccessor sa d = Some c) dsData = None"
    by (force simp: find_None_iff)
  then show ?thesis by (simp add: datasetValue_def)
qed







section \<open>The nearest entity\<close>

lemma isFinite_iff: "isFinite x \<longleftrightarrow> (\<exists>a. x = Num a)"
  by (cases x) simp_all

lemma closerThan_Num [simp]:
  "closerThan (Num a, Num b) (Num c, Num d) \<longleftrightarrow> a < c \<or> a = c \<and> b < d"
  by (simp add: closerThan_def)

lemma closerThan_init [simp]: "closerThan (Num a, Num b) (PosInf, PosInf)"
  by (simp add: closerThan_def)

lemma finitePairE:
  assumes "finitePair d"
  obtains a b where "d = (Num a, Num b)"
  using assms by (cases d) (auto simp: finitePair_def isFinite_iff)

lemma closerThan_irrefl: "finitePair d \<Longrightarrow> \<not> closerThan d d"
  by (erule finitePairE) simp

lemma closerThan_start: "finitePair d \<Longrightarrow> closerThan d (PosInf, PosInf)"
  by (erule finitePairE) simp

lemma closerThan_trans_le:
  "finitePair d1 \<Longrightarrow> finitePair d2 \<Longrightarrow> finitePair d3 \<Longrightarrow>
     closerThan d1 d2 \<Longrightarrow> \<not> closerThan d3 d2 \<Longrightarrow> closerThan d1 d3 \<and> \<not> closerThan d3 d1"
  by (elim finitePairE) auto

lemma fold_nearestStep:
  "fold (nearestStep p q) es st
     = fold (nearestPick (nearestDists p q)) (filter (visible p) es) st"
  by (induction es arbitrary: st)
    (simp_all add: nearestStep_def nearestPick_def visible_def Let_def)

lemma fold_nearestPick:
  assumes "\<forall>x \<in> set xs. finitePair (D x)"
  shows "(xs = [] \<longrightarrow> fold (nearestPick D) xs (None, PosInf, PosInf) = (None, PosInf, PosInf))
    \<and> (xs \<noteq> [] \<longrightarrow> (\<exists>k < length xs.
          fold (nearestPick D) xs (None, PosInf, PosInf) = (Some (xs ! k), D (xs ! k))
          \<and> (\<forall>j < length xs. \<not> closerThan (D (xs ! j)) (D (xs ! k)))
          \<and> (\<forall>j < k. closerThan (D (xs ! k)) (D (xs ! j)))))"
  using assms
proof (induction xs rule: rev_induct)
  case Nil
  then show ?case by simp
next
  case (snoc x xs)
  have fx: "finitePair (D x)" and fxs: "\<forall>y \<in> set xs. finitePair (D y)"
    using snoc.prems by simp_all
  show ?case
  proof (cases "xs = []")
    case True
    then show ?thesis
      using fx by (simp add: nearestPick_def closerThan_start closerThan_irrefl)
  next
    case False
    with snoc.IH fxs obtain k where k: "k < length xs"
      and r: "fold (nearestPick D) xs (None, PosInf, PosInf) = (Some (xs ! k), D (xs ! k))"
      and least: "\<forall>j < length xs. \<not> closerThan (D (xs ! j)) (D (xs ! k))"
      and first: "\<forall>j < k. closerThan (D (xs ! k)) (D (xs ! j))"
      by blast
    have fk: "finitePair (D (xs ! k))"
      using fxs k by simp
    show ?thesis
    proof (cases "closerThan (D x) (D (xs ! k))")
      case True
      have "\<forall>j < length xs. closerThan (D x) (D (xs ! j)) \<and> \<not> closerThan (D (xs ! j)) (D x)"
        using closerThan_trans_le [OF fx fk _ True] least fxs by simp
      then have "fold (nearestPick D) (xs @ [x]) (None, PosInf, PosInf)
            = (Some ((xs @ [x]) ! length xs), D ((xs @ [x]) ! length xs))
          \<and> (\<forall>j < length (xs @ [x]). \<not> closerThan (D ((xs @ [x]) ! j)) (D ((xs @ [x]) ! length xs)))
          \<and> (\<forall>j < length xs. closerThan (D ((xs @ [x]) ! length xs)) (D ((xs @ [x]) ! j)))"
        using True r fx by (auto simp: nearestPick_def nth_append closerThan_irrefl less_Suc_eq)
      then show ?thesis
        by (intro conjI impI exI [of _ "length xs"]) simp_all
    next
      case False
      then have "fold (nearestPick D) (xs @ [x]) (None, PosInf, PosInf)
            = (Some ((xs @ [x]) ! k), D ((xs @ [x]) ! k))
          \<and> (\<forall>j < length (xs @ [x]). \<not> closerThan (D ((xs @ [x]) ! j)) (D ((xs @ [x]) ! k)))
          \<and> (\<forall>j < k. closerThan (D ((xs @ [x]) ! k)) (D ((xs @ [x]) ! j)))"
        using r k least first by (auto simp: nearestPick_def nth_append less_Suc_eq)
      then show ?thesis
        using k by (intro conjI impI exI [of _ k]) simp_all
    qed
  qed
qed

lemma nearestDists_eq:
  "nearestDists p q e =
     (if insideBar q e then (Num 0, Num 0)
      else (js_abs (js_sub (primaryCoord p q) (primaryCoord p (position e))),
            if withinSecondarySpan p q e then Num 0
            else js_abs (js_sub (secondaryCoord p q) (secondaryCoord p (position e)))))"
  by (simp add: nearestDists_def primaryCoord_def secondaryCoord_def Let_def)

lemma nearestDists_finite:
  assumes "finitePoint q" and "finiteEntity e"
  shows "finitePair (nearestDists p q e)"
proof -
  from assms obtain qx qy px py where
    "pt_x q = Num qx" "pt_y q = Num qy" "pt_x (position e) = Num px" "pt_y (position e) = Num py"
    by (auto simp: finitePoint_def finiteEntity_def isFinite_iff)
  then show ?thesis
    by (simp add: nearestDists_eq primaryCoord_def secondaryCoord_def finitePair_def)
qed

text \<open>
  Claim C2, as amended. For a finite query point and finite visible entities,
  \<open>entityNearest\<close> considers only the entities visible on the plot; it returns none when
  there is none, and otherwise the first entity, in the order of enumeration, whose pair
  (primary distance, secondary distance) is lexicographically smallest: no visible entity
  is closer, and every visible entity before it is strictly farther. Both distances are 0
  when the query point is inside the bounding box of the bar. Otherwise the primary
  distance is the distance along the primary direction (x for a vertical plot) between the
  query point and the position of the entity, whether or not the query point falls within
  the span of the bar along that direction, and the secondary distance is 0 when the
  query point is within the span of the bar along the other direction and else the distance
  to the position of the entity along it.
\<close>

theorem entityNearest_lexicographic:
  assumes "finitePoint q"
    and "\<forall>e \<in> set (entities p ents). visible p e \<longrightarrow> finiteEntity e"
  shows "(filter (visible p) (entities p ents) = [] \<longrightarrow> entityNearest p q ents = None)
    \<and> (filter (visible p) (entities p ents) \<noteq> [] \<longrightarrow>
         (\<exists>k < length (filter (visible p) (entities p ents)).
            entityNearest p q ents = Some (filter (visible p) (entities p ents) ! k)
            \<and> (\<forall>j < length (filter (visible p) (entities p ents)).
                  \<not> closerThan (nearestDists p q (filter (visible p) (entities p ents) ! j))
                                (nearestDists p q (filter (visible p) (entities p ents) ! k)))
            \<and> (\<forall>j < k.
                  closerThan (nearestDists p q (filter (visible p) (entities p ents) ! k))
                             (nearestDists p q (filter (visible p) (entities p ents) ! j)))))
    \<and> (\<forall>e \<in> set (filter (visible p) (entities p ents)).
          finitePair (nearestDists p q e)
          \<and> nearestDists p q e =
             (if insideBar q e then (Num 0, Num 0)
              else (js_abs (js_sub (primaryCoord p q) (primaryCoord p (position e))),
                    if withinSecondarySpan p q e then Num 0
                    else js_abs (js_sub (secondaryCoord p q) (secondaryCoord p (position e))))))"
proof -
  let ?vis = "filter (visible p) (entities p ents)"
  have fin: "\<forall>e \<in> set ?vis. finitePair (nearestDists p q e)"
    using assms by (auto intro: nearestDists_finite)
  have eq: "entityNearest p q ents
      = fst (fold (nearestPick (nearestDists p q)) ?vis (None, PosInf, PosInf))"
    by (simp add: entityNearest_def fold_nearestStep)
  show ?thesis
    using fold_nearestPick [OF fin] fin
    by (auto simp: eq nearestDists_eq [symmetric])
qed

lemma exampleNear_entities:
  "entities exampleNearBar exampleNearEntities = [exampleEntityA, exampleEntityB]"
  by (simp add: entities_def exampleNearEntities_def plotEntity_def pixelPoint_def
      adjustEntity_def generateAttrToProjector_def originalPositionFn_def positionF_def
      exampleNearBar_def exampleEntityA_def exampleEntityB_def Let_def)

lemma exampleNear_visible:
  "visible exampleNearBar exampleEntityA" "visible exampleNearBar exampleEntityB"
  by (simp_all add: visible_def isVisibleOnPlot_def intersectsBBox_def getBBox_def
      DEFAULT_TOLERANCE_def exampleNearBar_def exampleEntityA_def exampleEntityB_def Let_def)

lemma exampleNear_finite:
  "finitePoint exampleQuery" "finiteEntity exampleEntityA" "finiteEntity exampleEntityB"
  by (simp_all add: finitePoint_def finiteEntity_def finiteRect_def exampleQuery_def
      exampleEntityA_def exampleEntityB_def)

lemma exampleNear_tests:
  "\<not> insideBar exampleQuery exampleEntityA" "\<not> insideBar exampleQuery exampleEntityB"
  "\<not> withinSecondarySpan exampleNearBar exampleQuery exampleEntityA"
  "\<not> withinSecondarySpan exampleNearBar exampleQuery exampleEntityB"
  "withinPrimarySpan exampleNearBar exampleQuery exampleEntityA"
  "withinPrimarySpan exampleNearBar exampleQuery exampleEntityB"
  by (simp_all add: insideBar_def withinSecondarySpan_def withinPrimarySpan_def
      intersectsBBox_def getBBox_def tolerance_def primaryCoord_def exampleNearBar_def
      exampleQuery_def exampleEntityA_def exampleEntityB_def Let_def)

lemma exampleNear_dists:
  "nearestDists exampleNearBar exampleQuery exampleEntityA = (Num 2, Num 50)"
  "nearestDists exampleNearBar exampleQuery exampleEntityB = (Num 4, Num 10)"
  "spec_nearestDists exampleNearBar exampleQuery exampleEntityA = (Num 0, Num 50)"
  "spec_nearestDists exampleNearBar exampleQuery exampleEntityB = (Num 0, Num 10)"
  by (simp_all add: nearestDists_eq spec_nearestDists_def exampleNear_tests)
    (simp_all add: primaryCoord_def secondaryCoord_def exampleNearBar_def
      exampleQuery_def exampleEntityA_def exampleEntityB_def)

text \<open>
  Claim C2 as stated fails. With the primary distance zero within the span along the
  primary direction, both bars would tie on the primary distance and the second bar, whose
  value end is nearer along y, would be the closest; \<open>entityNearest\<close> returns the first
  bar, whose centre is nearer along x.
\<close>

theorem entityNearest_not_span_based:
  "entityNearest exampleNearBar exampleQuery exampleNearEntities = Some exampleEntityA
   \<and> filter (visible exampleNearBar) (entities exampleNearBar exampleNearEntities)
       = [exampleEntityA, exampleEntityB]
   \<and> closerThan (spec_nearestDists exampleNearBar exampleQuery exampleEntityB)
                 (spec_nearestDists exampleNearBar exampleQuery exampleEntityA)"
  by (simp add: entityNearest_def exampleNear_entities nearestStep_def exampleNear_visible
      exampleNear_visible [unfolded visible_def] exampleNear_dists Let_def)

theorem entityNearest_lexicographic_witness:
  "entityNearest exampleNearBar exampleQuery exampleNearEntities = Some exampleEntityA
   \<and> \<not> closerThan (nearestDists exampleNearBar exampleQuery exampleEntityB)
                   (nearestDists exampleNearBar exampleQuery exampleEntityA)"
proof -
  let ?vis = "[exampleEntityA, exampleEntityB]"
  have vis: "filter (visible exampleNearBar) (entities exampleNearBar exampleNearEntities) = ?vis"
    by (simp add: exampleNear_entities exampleNear_visible)
  have hyp: "\<forall>e \<in> set (entities exampleNearBar exampleNearEntities).
      visible exampleNearBar e \<longrightarrow> finiteEntity e"
    by (simp add: exampleNear_entities exampleNear_finite)
  have "?vis \<noteq> [] \<longrightarrow> (\<exists>k < length ?vis.
      entityNearest exampleNearBar exampleQuery exampleNearEntities = Some (?vis ! k)
      \<and> (\<forall>j < length ?vis. \<not> closerThan (nearestDists exampleNearBar exampleQuery (?vis ! j))
                      (nearestDists exampleNearBar exampleQuery (?vis ! k)))
      \<and> (\<forall>j < k. closerThan (nearestDists exampleNearBar exampleQuery (?vis ! k))
                      (nearestDists exampleNearBar exampleQuery (?vis ! j))))"
    using entityNearest_lexicographic [OF exampleNear_finite(1) hyp]
    unfolding vis by (rule conjunct1 [OF conjunct2])
  moreover have "?vis \<noteq> []"
    by simp
  ultimately obtain k where k: "k < length ?vis"
    "entityNearest exampleNearBar exampleQuery exampleNearEntities = Some (?vis ! k)"
    "\<forall>j < length ?vis. \<not> closerThan (nearestDists exampleNearBar exampleQuery (?vis ! j))
                      (nearestDists exampleNearBar exampleQuery (?vis ! k))"
    by blast
  have "k = 0"
  proof (rule ccontr)
    assume "k \<noteq> 0"
    with k(1) have "k = 1" by simp
    with k(3) [rule_format, of 0] show False
      by (simp add: exampleNear_dists)
  qed
  with k(2) show ?thesis
    by (simp add: exampleNear_dists)
qed

section \<open>The tolerance of the inside tests\<close>

lemma finiteRectE:
  assumes "finiteRect r"
  obtains bx "by" bw bh where "rect_x r = Num bx" "rect_y r = Num by"
    "rect_width r = Num bw" "rect_height r = Num bh"
  using assms by (auto simp: finiteRect_def isFinite_iff)

lemma intersectsBBox_finite:
  assumes "finiteRect bbox"
  shows "intersectsBBox (Range (Num xlo) (Num xhi)) (Range (Num ylo) (Num yhi)) bbox None
           = spec_withinTolerance (1 / 2) (xlo, xhi) (ylo, yhi) bbox"
    and "intersectsBBox (Val (Num x)) (Val (Num y)) bbox None
           = spec_withinTolerance (1 / 2) (x, x) (y, y) bbox"
    and "intersectsBBox (Val (Num x)) (Val (Num y)) bbox (Some tolerance)
           = spec_withinTolerance (1 / 2) (x, x) (y, y) bbox"
  using assms
  by (auto elim!: finiteRectE
      simp: intersectsBBox_def spec_withinTolerance_def DEFAULT_TOLERANCE_def tolerance_def)

text \<open>
  Claim C5. On finite numbers every inside test of the spatial queries uses the tolerance
  of half a pixel: the test of \<open>entityNearest\<close> whether the query point is inside the
  bounding box of a bar, its test whether the query point is within the span of the bar
  along the secondary direction, the test of \<open>entitiesAt\<close> for a point, and the test of
  \<open>entitiesIn\<close> for two ranges or for bounds.
\<close>

theorem inside_tests_half_pixel:
  assumes "\<forall>e \<in> set (entities p ents). finiteRect (selection e)"
  shows "(\<forall>e \<in> set (entities p ents).
            insideBar \<lparr> pt_x = Num qx, pt_y = Num qy \<rparr> e
              = spec_withinTolerance (1 / 2) (qx, qx) (qy, qy) (selection e)
          \<and> withinSecondarySpan p \<lparr> pt_x = Num qx, pt_y = Num qy \<rparr> e
              = (if isVertical p
                 then spec_withinSpan (1 / 2) qy (rect_y (selection e)) (rect_height (selection e))
                 else spec_withinSpan (1 / 2) qx (rect_x (selection e)) (rect_width (selection e))))
    \<and> entitiesAt p \<lparr> pt_x = Num qx, pt_y = Num qy \<rparr> ents
        = filter (\<lambda>e. spec_withinTolerance (1 / 2) (qx, qx) (qy, qy) (selection e)) (entities p ents)
    \<and> entitiesIn p (Num xlo, Num xhi) (Num ylo, Num yhi) ents
        = filter (\<lambda>e. spec_withinTolerance (1 / 2) (xlo, xhi) (ylo, yhi) (selection e))
            (entities p ents)
    \<and> entitiesIn_bounds p \<lparr> topLeft = \<lparr> pt_x = Num xlo, pt_y = Num ylo \<rparr>,
                             bottomRight = \<lparr> pt_x = Num xhi, pt_y = Num yhi \<rparr> \<rparr> ents
        = filter (\<lambda>e. spec_withinTolerance (1 / 2) (xlo, xhi) (ylo, yhi) (selection e))
            (entities p ents)"
proof -
  have span: "withinSecondarySpan p \<lparr> pt_x = Num qx, pt_y = Num qy \<rparr> e
      = (if isVertical p
         then spec_withinSpan (1 / 2) qy (rect_y (selection e)) (rect_height (selection e))
         else spec_withinSpan (1 / 2) qx (rect_x (selection e)) (rect_width (selection e)))"
    if "finiteRect (selection e)" for e :: "'a entity"
    using that
    by (auto elim!: finiteRectE
        simp: withinSecondarySpan_def spec_withinSpan_def getBBox_def tolerance_def Let_def)
  have at: "entitiesAt p \<lparr> pt_x = Num qx, pt_y = Num qy \<rparr> ents
      = filter (\<lambda>e. spec_withinTolerance (1 / 2) (qx, qx) (qy, qy) (selection e)) (entities p ents)"
    unfolding entitiesAt_def entitiesIntersecting_def
    using assms by (intro filter_cong) (simp_all add: intersectsBBox_finite getBBox_def)
  have inn: "entitiesIntersecting p (Range (Num xlo) (Num xhi)) (Range (Num ylo) (Num yhi)) ents
      = filter (\<lambda>e. spec_withinTolerance (1 / 2) (xlo, xhi) (ylo, yhi) (selection e)) (entities p ents)"
    unfolding entitiesIntersecting_def
    using assms by (intro filter_cong) (simp_all add: intersectsBBox_finite getBBox_def)
  show ?thesis
    using assms span at inn
    by (simp add: insideBar_def intersectsBBox_finite getBBox_def entitiesIn_def
        entitiesIn_bounds_def)
qed

theorem inside_tests_half_pixel_witness:
  "entitiesAt exampleNearBar \<lparr> pt_x = Num 22.5, pt_y = Num 9.5 \<rparr> exampleNearEntities
     = [exampleEntityB]
   \<and> entitiesAt exampleNearBar \<lparr> pt_x = Num 22.6, pt_y = Num 9.5 \<rparr> exampleNearEntities = []
   \<and> entitiesIn exampleNearBar (Num 0, Num 9.5) (Num 0, Num 49.5) exampleNearEntities
     = [exampleEntityA]
   \<and> entitiesIn_bounds exampleNearBar
        \<lparr> topLeft = \<lparr> pt_x = Num 0, pt_y = Num 0 \<rparr>,
          bottomRight = \<lparr> pt_x = Num 9.4, pt_y = Num 49.5 \<rparr> \<rparr> exampleNearEntities = []
   \<and> insideBar \<lparr> pt_x = Num 9.5, pt_y = Num 100.5 \<rparr> exampleEntityA
   \<and> withinSecondarySpan exampleNearBar \<lparr> pt_x = Num 0, pt_y = Num 49.5 \<rparr> exampleEntityA"
proof -
  have hyp: "\<forall>e \<in> set (entities exampleNearBar exampleNearEntities). finiteRect (selection e)"
    using exampleNear_finite by (simp add: exampleNear_entities finiteEntity_def)
  have sel: "spec_withinTolerance t xr yr (selection exampleEntityA)
        = (fst xr - t \<le> 20 \<and> 10 \<le> snd xr + t \<and> fst yr - t \<le> 100 \<and> 50 \<le> snd yr + t)"
      "spec_withinTolerance t xr yr (selection exampleEntityB)
        = (fst xr - t \<le> 22 \<and> 12 \<le> snd xr + t \<and> fst yr - t \<le> 100 \<and> 10 \<le> snd yr + t)"
    for t xr yr
    by (simp_all add: spec_withinTolerance_def exampleEntityA_def exampleEntityB_def)
  have span: "spec_withinSpan t v (rect_y (selection exampleEntityA))
        (rect_height (selection exampleEntityA)) = (50 - t \<le> v \<and> v \<le> 100 + t)" for t v
    by (simp add: spec_withinSpan_def exampleEntityA_def)
  have v: "isVertical exampleNearBar"
    by (simp add: exampleNearBar_def)
  show ?thesis
    using inside_tests_half_pixel [OF hyp, of "22.5" "9.5" 0 "9.5" 0 "49.5"]
      inside_tests_half_pixel [OF hyp, of "22.6" "9.5" 0 "9.4" 0 "49.5"]
      inside_tests_half_pixel [OF hyp, of "9.5" "100.5" 0 "9.4" 0 "49.5"]
      inside_tests_half_pixel [OF hyp, of 0 "49.5" 0 "9.4" 0 "49.5"]
    by (simp add: exampleNear_entities sel span v)
qed

section \<open>The position of an entity\<close>

lemma floor_eq_if_between:
  fixes raw b :: real
  shows "raw < b \<Longrightarrow> (\<lfloor>b\<rfloor> \<le> \<lfloor>raw\<rfloor>) = (\<lfloor>raw\<rfloor> = \<lfloor>b\<rfloor>)"
    and "raw < b \<Longrightarrow> (\<lfloor>raw\<rfloor> < \<lfloor>b\<rfloor>) = (\<lfloor>raw\<rfloor> \<noteq> \<lfloor>b\<rfloor>)"
  using floor_mono [of raw b] by auto

text \<open>
  Claim C10, as amended. For a rendered bar with finite geometry, in both orientations and
  for values on either side of the baseline, the position reported by \<open>entities()\<close> lies
  at the midpoint of the extent of the bar along its thickness, and along its length at
  the value end of the bar, unless the raw scaled value is smaller than the scaled
  baseline and has the same floor: then it lies at the baseline end.
\<close>

theorem entity_position:
  assumes "projectorsReady p" and "scaledBaseline p = Num b"
    and "originalPositionFn p d i ds = Num raw" and "positionF p d i ds = Num pos"
    and "attr_width (superAttrToProjector p) d i ds = Num w"
  shows "\<exists>e so. entities p [plotEntity p d i ds] = [e]
      \<and> alongLength p (position e) = Num (if raw < b \<and> \<lfloor>raw\<rfloor> = \<lfloor>b\<rfloor> then b else raw)
      \<and> alongThickness p (position e) = Num (so + w / 2)
      \<and> secondaryOffset p d i ds = Num so \<and> barThickness p d i ds = Num w"
proof (cases "raw < b")
  case True
  with assms show ?thesis
    by (cases "isVertical p")
      (simp_all add: entities_def plotEntity_def pixelPoint_def adjustEntity_def
        generateAttrToProjector_def originalPositionFn_def positionF_def secondaryOffset_def
        barThickness_def alongLength_def alongThickness_def Let_def floor_eq_if_between)
next
  case False
  with assms show ?thesis
    by (cases "isVertical p")
      (simp_all add: entities_def plotEntity_def pixelPoint_def adjustEntity_def
        generateAttrToProjector_def originalPositionFn_def positionF_def secondaryOffset_def
        barThickness_def alongLength_def alongThickness_def Let_def)
qed

lemma exampleBar_geometry:
  "projectorsReady exampleBar" "isVertical exampleBar" "scaledBaseline exampleBar = Num 62.5"
  "originalPositionFn exampleBar d i ds = Num (exampleYScale (snd d))"
  "positionF exampleBar d i ds = Num (exampleXScale (fst d))"
  "attr_width (superAttrToProjector exampleBar) d i ds = Num 47.5"
  by (simp_all add: exampleBar_def originalPositionFn_def positionF_def)

text \<open>
  Claim C10 as stated fails: the bar of the value 0.02 spans from pixel 62.25, its value
  end, to the baseline at pixel 62.5, and its reported position is at pixel 62.5.
\<close>

theorem entity_position_at_baseline_end:
  "entities exampleBar [plotEntity exampleBar (1, 0.02) 0 exampleData] =
     [\<lparr> datum = (1, 0.02), index = 0, dataset = exampleData,
        position = \<lparr> pt_x = Num 0, pt_y = Num 62.5 \<rparr>,
        selection = \<lparr> rect_x = Num (- 23.75), rect_y = Num 62.25,
                      rect_width = Num 47.5, rect_height = Num 0.25 \<rparr> \<rparr>]
   \<and> originalPositionFn exampleBar (1, 0.02) 0 exampleData = Num 62.25
   \<and> scaledBaseline exampleBar = Num 62.5"
  by (simp add: entities_def plotEntity_def pixelPoint_def adjustEntity_def
      generateAttrToProjector_def exampleBar_geometry exampleXScale_def exampleYScale_def
      Let_def)

theorem entity_position_witness:
  "\<exists>e. entities exampleBar [plotEntity exampleBar (2, -3) 1 exampleData] = [e]
      \<and> pt_y (position e) = Num 100 \<and> pt_x (position e) = Num 50"
proof -
  have so: "secondaryOffset exampleBar (2, -3) i exampleData = Num 26.25" for i
    by (simp add: secondaryOffset_def generateAttrToProjector_def exampleBar_geometry
        exampleXScale_def Let_def)
  have raw: "originalPositionFn exampleBar (2, -3) 1 exampleData = Num 100"
    and pos: "positionF exampleBar (2, -3) 1 exampleData = Num 50"
    by (simp_all add: exampleBar_geometry exampleXScale_def exampleYScale_def)
  from entity_position [OF exampleBar_geometry(1,3) raw pos exampleBar_geometry(6)]
  show ?thesis
    by (auto simp: so alongLength_def alongThickness_def exampleBar_geometry)
qed

end
